theory Spec2Isabelle
  imports Complex_Main "HOL-Library.Word"
begin

unbundle bit_operations_syntax

section \<open>Python values\<close>

text \<open>
  A Python \<open>str\<close> is a sequence of Unicode code points, a \<open>bytes\<close> object a
  sequence of 8-bit values. \<open>len\<close> of a \<open>str\<close> counts code points.
\<close>

type_synonym str = "nat list"
type_synonym byte = "8 word"
type_synonym bytes = "byte list"

text \<open>A \<open>str\<close> literal of the source, written with the characters it has.\<close>

definition py_str :: "string \<Rightarrow> str" where
  "py_str cs = map of_char cs"

text \<open>
  The exceptions that the modelled code can raise. \<open>PreconditionError\<close> and
  \<open>PostconditionError\<close> are the \<open>AssertionError\<close> subclasses that the
  \<open>dpcontracts\<close> decorators \<open>@require\<close> and \<open>@ensure\<close> raise;
  \<open>OSError\<close> is \<open>socket.error\<close>; \<open>SystemExit\<close> is what \<open>sys.exit\<close> raises.
\<close>

datatype exn =
    PreconditionError
  | PostconditionError
  | ValueError
  | KeyError
  | TypeError
  | AttributeError
  | OverflowError
  | OSError
  | SystemExit

section \<open>The cipher: \<open>HS110data.__encrypt\<close> and \<open>HS110data.__decrypt\<close>\<close>

text \<open>\<open>SOCKET_RETRY = 100\<close> and \<open>self.__hs110_key = 171\<close>.\<close>

definition SOCKET_RETRY :: int where
  "SOCKET_RETRY = 100"

definition hs110_key :: byte where
  "hs110_key = 171"

text \<open>
  \<open>string.encode('latin-1', 'replace')\<close>: one byte for each code point, the code point
  itself below 256 and \<open>?\<close> (63) for any other.
  \<open>result.decode('latin-1', 'replace')\<close>: every byte is the code point of its value.
\<close>

definition encode_latin1 :: "str \<Rightarrow> bytes" where
  "encode_latin1 s = map (\<lambda>c. if c < 256 then of_nat c else 63) s"

definition decode_latin1 :: "bytes \<Rightarrow> str" where
  "decode_latin1 bs = map unat bs"

text \<open>
  The loop of \<open>__encrypt\<close>, with its two variables \<open>key\<close> and \<open>result\<close>:
  \<^verbatim>\<open>
    for i in bytes(string.encode('latin-1', 'replace')):
        a = key ^ i
        key = a
        result += bytes([a])
  \<close>
\<close>

fun encrypt_loop :: "byte \<Rightarrow> bytes \<Rightarrow> bytes \<Rightarrow> bytes" where
  "encrypt_loop key [] result = result"
| "encrypt_loop key (i # rest) result =
     (let a = key XOR i in encrypt_loop a rest (result @ [a]))"

text \<open>
  \<open>__encrypt\<close>. The contract \<open>len(args.string) > 0\<close> is checked first. The header is
  \<open>b"\0\0\0" + bytes([len(string)])\<close>, and \<open>bytes([n])\<close> raises \<open>ValueError\<close> unless
  \<open>0 \<le> n < 256\<close>.
\<close>

definition encrypt :: "str \<Rightarrow> exn + bytes" where
  "encrypt string =
     (if \<not> length string > 0 then Inl PreconditionError
      else if length string \<ge> 256 then Inl ValueError
      else Inr (encrypt_loop hs110_key (encode_latin1 string)
                  [0, 0, 0, of_nat (length string)]))"

text \<open>
  The loop of \<open>__decrypt\<close>:
  \<^verbatim>\<open>
    for i in bytes(data):
        a = key ^ i
        key = i
        result += bytes([a])
  \<close>
\<close>

fun decrypt_loop :: "byte \<Rightarrow> bytes \<Rightarrow> bytes \<Rightarrow> bytes" where
  "decrypt_loop key [] result = result"
| "decrypt_loop key (i # rest) result =
     (let a = key XOR i in decrypt_loop i rest (result @ [a]))"

text \<open>
  The contract shared by \<open>__decrypt\<close> and \<open>receive\<close>:
  \<open>len(args.data) > 3 and args.data[0:3] == b"\0\0\0"\<close>.
\<close>

definition frame_ok :: "bytes \<Rightarrow> bool" where
  "frame_ok data = (length data > 3 \<and> take 3 data = [0, 0, 0])"

definition decrypt :: "bytes \<Rightarrow> exn + str" where
  "decrypt data =
     (if \<not> frame_ok data then Inl PreconditionError
      else Inr (decode_latin1 (decrypt_loop hs110_key (drop 4 data) [])))"

section \<open>Python values held by the client\<close>

text \<open>
  A Python \<open>float\<close> is a double: a finite value (modelled by the real number it
  denotes), an infinity or a NaN.
\<close>

datatype pyfloat = Finite real | PosInf | NegInf | NaN

text \<open>
  The values that \<open>json.loads\<close> returns, which are the values that
  \<open>self.__received_data\<close> holds: \<open>None\<close>, \<open>bool\<close>, \<open>int\<close>, \<open>float\<close>, \<open>str\<close>,
  \<open>list\<close> and \<open>dict\<close> with \<open>str\<close> keys. A \<open>dict\<close> is an association list in
  insertion order; the keys of a Python \<open>dict\<close> are distinct, and a lookup takes the
  binding of the key.
\<close>

datatype pyval =
    PNone
  | PBool bool
  | PInt int
  | PFloat pyfloat
  | PStr str
  | PList "pyval list"
  | PDict "(str \<times> pyval) list"

text \<open>\<open>d[k]\<close> on a \<open>dict\<close>: \<open>KeyError\<close> when the key is absent.\<close>

definition dict_get :: "(str \<times> 'v) list \<Rightarrow> str \<Rightarrow> exn + 'v" where
  "dict_get d k = (case map_of d k of None \<Rightarrow> Inl KeyError | Some v \<Rightarrow> Inr v)"

text \<open>
  \<open>x[k]\<close> with a \<open>str\<close> key \<open>k\<close>: a lookup on a \<open>dict\<close>, \<open>TypeError\<close> on every
  other value (a \<open>list\<close> or \<open>str\<close> takes integer indices only; the rest cannot be
  subscripted).
\<close>

fun getitem :: "pyval \<Rightarrow> str \<Rightarrow> exn + pyval" where
  "getitem (PDict d) k = dict_get d k"
| "getitem PNone k = Inl TypeError"
| "getitem (PBool b) k = Inl TypeError"
| "getitem (PInt n) k = Inl TypeError"
| "getitem (PFloat f) k = Inl TypeError"
| "getitem (PStr s) k = Inl TypeError"
| "getitem (PList xs) k = Inl TypeError"

text \<open>\<open>xs in ys\<close> on two \<open>str\<close>: \<open>xs\<close> occurs in \<open>ys\<close> as a contiguous run.\<close>

fun is_substring :: "'a list \<Rightarrow> 'a list \<Rightarrow> bool" where
  "is_substring xs [] = (xs = [])"
| "is_substring xs (y # ys) = (take (length xs) (y # ys) = xs \<or> is_substring xs ys)"

text \<open>
  \<open>k in x\<close> with a \<open>str\<close> \<open>k\<close>: key membership on a \<open>dict\<close>, element membership on
  a \<open>list\<close>, substring test on a \<open>str\<close>, \<open>TypeError\<close> on a value that is not
  iterable.
\<close>

fun contains :: "str \<Rightarrow> pyval \<Rightarrow> exn + bool" where
  "contains k (PDict d) = Inr (k \<in> set (map fst d))"
| "contains k (PList xs) = Inr (PStr k \<in> set xs)"
| "contains k (PStr s) = Inr (is_substring k s)"
| "contains k PNone = Inl TypeError"
| "contains k (PBool b) = Inl TypeError"
| "contains k (PInt n) = Inl TypeError"
| "contains k (PFloat f) = Inl TypeError"

text \<open>
  \<open>float(n)\<close> of an \<open>int\<close>: the nearest double, ties to even, \<open>OverflowError\<close> when
  that is not finite. A double has 53 bits of precision and is below \<open>2 ^ 1024\<close>.
\<close>

fun bit_length :: "nat \<Rightarrow> nat" where
  "bit_length n = (if n = 0 then 0 else Suc (bit_length (n div 2)))"

definition float_of_int :: "int \<Rightarrow> exn + pyfloat" where
  "float_of_int n =
     (let a = nat \<bar>n\<bar>; l = bit_length a in
      if l \<le> 53 then Inr (Finite (of_int n))
      else
        let sh = l - 53;
            q = a div 2 ^ sh;
            r = a mod 2 ^ sh;
            half = 2 ^ (sh - 1);
            q' = (if r > half \<or> (r = half \<and> odd q) then q + 1 else q);
            v = q' * 2 ^ sh
        in if v \<ge> 2 ^ 1024 then Inl OverflowError
           else Inr (Finite (of_int (sgn n * int v))))"

text \<open>
  The builtin \<open>float(v)\<close>. Parsing a \<open>str\<close> is the parameter \<open>str_to_float\<close>
  (\<open>None\<close> where \<open>float\<close> raises \<open>ValueError\<close>).
\<close>

fun py_float :: "(str \<Rightarrow> pyfloat option) \<Rightarrow> pyval \<Rightarrow> exn + pyfloat" where
  "py_float str_to_float (PFloat f) = Inr f"
| "py_float str_to_float (PInt n) = float_of_int n"
| "py_float str_to_float (PBool b) = Inr (Finite (if b then 1 else 0))"
| "py_float str_to_float (PStr s) =
     (case str_to_float s of None \<Rightarrow> Inl ValueError | Some f \<Rightarrow> Inr f)"
| "py_float str_to_float PNone = Inl TypeError"
| "py_float str_to_float (PList xs) = Inl TypeError"
| "py_float str_to_float (PDict d) = Inl TypeError"

section \<open>\<open>valid_ip\<close>\<close>

text \<open>The code points that \<open>str.strip()\<close> removes (those with \<open>str.isspace()\<close>).\<close>

definition is_space :: "nat \<Rightarrow> bool" where
  "is_space c \<longleftrightarrow>
     c \<in> set ([9, 10, 11, 12, 13, 28, 29, 30, 31, 32, 133, 160, 5760]
              @ [8192 ..< 8203] @ [8232, 8233, 8239, 8287, 12288])"

definition strip :: "str \<Rightarrow> str" where
  "strip s = rev (dropWhile is_space (rev (dropWhile is_space s)))"

text \<open>
  \<open>valid_ip\<close>, with its contracts: \<open>len(args.ip) > 0\<close> before the body and
  \<open>result in args.ip\<close> after it. \<open>socket.inet_pton(socket.AF_INET, ip)\<close> is the
  parameter \<open>inet_pton\<close>: whether the system accepts the text as an IPv4 address.
\<close>

definition valid_ip :: "(str \<Rightarrow> bool) \<Rightarrow> str \<Rightarrow> exn + str" where
  "valid_ip inet_pton ip0 =
     (if \<not> length ip0 > 0 then Inl PreconditionError
      else
        let ip = strip ip0 in
        if \<not> inet_pton ip then Inl ValueError
        else if \<not> is_substring ip ip0 then Inl PostconditionError
        else Inr ip)"

section \<open>The client: class \<open>HS110data\<close>\<close>

text \<open>
  The attributes that change, or that differ between clients. \<open>self.__keyname\<close> and
  \<open>self.__hs110_key\<close> are set once by \<open>__init__\<close> to constants and are the
  definitions \<open>keyname\<close> and \<open>hs110_key\<close>.
\<close>

record hs110 =
  hardware :: str
  received_data :: pyval
  ip :: str
  port :: int
  socket_counter :: int

definition keyname :: "(str \<times> (str \<times> str) list) list" where
  "keyname =
     [(py_str ''h1'',
         [(py_str ''current'', py_str ''current''),
          (py_str ''voltage'', py_str ''voltage''),
          (py_str ''power'', py_str ''power''),
          (py_str ''total'', py_str ''total'')]),
      (py_str ''h2'',
         [(py_str ''current'', py_str ''current_ma''),
          (py_str ''voltage'', py_str ''voltage_mv''),
          (py_str ''power'', py_str ''power_mw''),
          (py_str ''total'', py_str ''total_wh'')])]"

text \<open>
  \<open>__empty_data\<close>: each \<open>self.__keyname[self.__hardware][...]\<close> raises \<open>KeyError\<close>
  when the key is absent.
\<close>

definition empty_data :: "hs110 \<Rightarrow> exn + pyval" where
  "empty_data self =
     (case dict_get keyname (hardware self) of Inl e \<Rightarrow> Inl e | Inr names \<Rightarrow>
      case dict_get names (py_str ''current'') of Inl e \<Rightarrow> Inl e | Inr k_current \<Rightarrow>
      case dict_get names (py_str ''voltage'') of Inl e \<Rightarrow> Inl e | Inr k_voltage \<Rightarrow>
      case dict_get names (py_str ''power'') of Inl e \<Rightarrow> Inl e | Inr k_power \<Rightarrow>
      case dict_get names (py_str ''total'') of Inl e \<Rightarrow> Inl e | Inr k_total \<Rightarrow>
        Inr (PDict [(py_str ''emeter'',
               PDict [(py_str ''get_realtime'',
                 PDict [(k_current, PInt 0),
                        (k_voltage, PInt 0),
                        (k_power, PInt 0),
                        (k_total, PInt 0),
                        (py_str ''err_code'', PInt 0)])])]))"

text \<open>
  \<open>__init__\<close>. Its contracts are checked in the order in which they are written:
  \<open>valid_ip(args.ip)\<close> (whose own exceptions propagate, and whose result, a \<open>str\<close>, must
  be non-empty to count as true), \<open>hardware_version in ['h1', 'h2']\<close>, and
  \<open>0 \<le> port \<le> 65535\<close>. The body assigns \<open>self.__hardware\<close> before it calls
  \<open>self.__empty_data()\<close>, which reads no other attribute.
\<close>

definition init :: "(str \<Rightarrow> bool) \<Rightarrow> str \<Rightarrow> str \<Rightarrow> int \<Rightarrow> exn + hs110" where
  "init inet_pton hardware_version ip_arg port_arg =
     (case valid_ip inet_pton ip_arg of Inl e \<Rightarrow> Inl e | Inr r \<Rightarrow>
      if r = [] then Inl PreconditionError
      else if hardware_version \<notin> set [py_str ''h1'', py_str ''h2''] then Inl PreconditionError
      else if \<not> (port_arg \<ge> 0 \<and> port_arg \<le> 65535) then Inl PreconditionError
      else
        let self = \<lparr>hardware = hardware_version, received_data = PNone,
                     ip = ip_arg, port = port_arg, socket_counter = SOCKET_RETRY\<rparr>
        in case empty_data self of Inl e \<Rightarrow> Inl e
           | Inr d \<Rightarrow> Inr (self\<lparr>received_data := d\<rparr>))"

text \<open>
  \<open>receive\<close>. Its contract (the one of \<open>__decrypt\<close>) is checked by the decorator, before
  the body and so outside its \<open>try\<close>. \<open>json.loads\<close> is the parameter \<open>json_loads\<close>
  (\<open>None\<close> where it raises). Inside the \<open>try\<close> every exception becomes
  \<open>ValueError\<close>; the test for \<open>"current_ma"\<close> comes after it, when
  \<open>self.__received_data\<close> is already assigned.
\<close>

definition receive :: "(str \<Rightarrow> pyval option) \<Rightarrow> hs110 \<Rightarrow> bytes \<Rightarrow> exn option \<times> hs110" where
  "receive json_loads self data =
     (if \<not> frame_ok data then (Some PreconditionError, self)
      else
        case (case decrypt data of Inl e \<Rightarrow> None | Inr text \<Rightarrow> json_loads text) of
          None \<Rightarrow> (Some ValueError, self)
        | Some payload \<Rightarrow>
            let self1 = self\<lparr>received_data := payload\<rparr> in
            case getitem payload (py_str ''emeter'') of Inl e \<Rightarrow> (Some e, self1) | Inr em \<Rightarrow>
            case getitem em (py_str ''get_realtime'') of Inl e \<Rightarrow> (Some e, self1) | Inr rt \<Rightarrow>
            case contains (py_str ''current_ma'') rt of Inl e \<Rightarrow> (Some e, self1) | Inr b \<Rightarrow>
              (None, self1\<lparr>hardware := (if b then py_str ''h2'' else py_str ''h1'')\<rparr>))"

text \<open>\<open>get_cmd\<close>: the fixed command, encrypted.\<close>

definition get_cmd :: "exn + bytes" where
  "get_cmd = encrypt (py_str (''{'' @ [CHR 0x22] @ ''emeter'' @ [CHR 0x22] @ '':{''
                @ [CHR 0x22] @ ''get_realtime'' @ [CHR 0x22] @ '':{}}}''))"

text \<open>
  \<open>get_data\<close>. The subscripts are evaluated from left to right, the index
  \<open>self.__keyname[self.__hardware][item]\<close> before the last of them. A \<open>KeyError\<close> of the
  \<open>try\<close> is raised again with a message that reads
  \<open>self.__received_data["emeter"]["get_realtime"].keys()\<close>, which can raise itself.
\<close>

definition get_data_try :: "(str \<Rightarrow> pyfloat option) \<Rightarrow> hs110 \<Rightarrow> str \<Rightarrow> exn + pyfloat" where
  "get_data_try str_to_float self item =
     (case getitem (received_data self) (py_str ''emeter'') of Inl e \<Rightarrow> Inl e | Inr em \<Rightarrow>
      case getitem em (py_str ''get_realtime'') of Inl e \<Rightarrow> Inl e | Inr rt \<Rightarrow>
      case dict_get keyname (hardware self) of Inl e \<Rightarrow> Inl e | Inr names \<Rightarrow>
      case dict_get names item of Inl e \<Rightarrow> Inl e | Inr k \<Rightarrow>
      case getitem rt k of Inl e \<Rightarrow> Inl e | Inr v \<Rightarrow>
        py_float str_to_float v)"

definition get_data_except :: "hs110 \<Rightarrow> exn" where
  "get_data_except self =
     (case getitem (received_data self) (py_str ''emeter'') of Inl e \<Rightarrow> e | Inr em \<Rightarrow>
      case getitem em (py_str ''get_realtime'') of Inl e \<Rightarrow> e | Inr rt \<Rightarrow>
      case rt of PDict d \<Rightarrow> KeyError | _ \<Rightarrow> AttributeError)"

definition get_data :: "(str \<Rightarrow> pyfloat option) \<Rightarrow> hs110 \<Rightarrow> str \<Rightarrow> exn + pyfloat" where
  "get_data str_to_float self item =
     (case get_data_try str_to_float self item of
        Inl e \<Rightarrow> if e = KeyError then Inl (get_data_except self) else Inl e
      | Inr f \<Rightarrow> Inr f)"

text \<open>\<open>reset_data\<close>: \<open>self.__received_data = self.__empty_data()\<close>.\<close>

definition reset_data :: "hs110 \<Rightarrow> exn option \<times> hs110" where
  "reset_data self =
     (case empty_data self of
        Inl e \<Rightarrow> (Some e, self)
      | Inr d \<Rightarrow> (None, self\<lparr>received_data := d\<rparr>))"

text \<open>
  What the network does during one call of \<open>send\<close>: \<open>connect\<close>, \<open>send\<close> or \<open>recv\<close>
  raises \<open>socket.error\<close> (a timeout is one), or \<open>recv\<close> returns the reply. Creating the
  socket, \<open>settimeout\<close> and \<open>close\<close> are taken to succeed. The socket that the call
  creates is open until \<open>sock_tcp.close()\<close> is called.
\<close>

datatype net = ConnectError | SendError | RecvError | Reply bytes

datatype sock = SockOpen | SockClosed

text \<open>
  The \<open>try\<close> block of \<open>send\<close>: the exception it ends with (if any), the client and the
  socket at that point.
\<close>

definition send_try ::
    "(str \<Rightarrow> pyval option) \<Rightarrow> hs110 \<Rightarrow> bytes \<Rightarrow> net \<Rightarrow> exn option \<times> hs110 \<times> sock" where
  "send_try json_loads self command n =
     (case n of
        ConnectError \<Rightarrow> (Some OSError, self, SockOpen)
      | SendError \<Rightarrow> (Some OSError, self, SockOpen)
      | RecvError \<Rightarrow> (Some OSError, self, SockOpen)
      | Reply data \<Rightarrow>
          let self1 = self\<lparr>socket_counter := SOCKET_RETRY\<rparr> in
          case receive json_loads self1 data of
            (r, self2) \<Rightarrow> (r, self2, SockClosed))"

text \<open>
  The \<open>except\<close> clauses of \<open>send\<close>: \<open>socket.error\<close>, then \<open>ValueError\<close>; any other
  exception propagates. \<open>sys.exit\<close> raises \<open>SystemExit\<close>.
\<close>

definition send_except :: "exn \<Rightarrow> hs110 \<Rightarrow> exn option \<times> hs110" where
  "send_except e self =
     (if e = OSError then
        let self1 = self\<lparr>socket_counter := socket_counter self - 1\<rparr> in
        if socket_counter self1 = 0 then (Some SystemExit, self1) else (None, self1)
      else if e = ValueError then reset_data self
      else (Some e, self))"

definition send ::
    "(str \<Rightarrow> pyval option) \<Rightarrow> hs110 \<Rightarrow> bytes \<Rightarrow> net \<Rightarrow> exn option \<times> hs110 \<times> sock" where
  "send json_loads self command n =
     (case send_try json_loads self command n of
        (None, self1, sk) \<Rightarrow> (None, self1, sk)
      | (Some e, self1, sk) \<Rightarrow>
          (case send_except e self1 of (r, self2) \<Rightarrow> (r, self2, sk)))"

text \<open>
  \<open>connect\<close>: \<open>self.send(self.get_cmd())\<close>. If \<open>get_cmd\<close> raised, \<open>send\<close> would not be
  called and no socket would be open.
\<close>

definition connect :: "(str \<Rightarrow> pyval option) \<Rightarrow> hs110 \<Rightarrow> net \<Rightarrow> exn option \<times> hs110 \<times> sock" where
  "connect json_loads self n =
     (case get_cmd of
        Inl e \<Rightarrow> (Some e, self, SockClosed)
      | Inr command \<Rightarrow> send json_loads self command n)"

text \<open>
  Successive calls of \<open>send\<close> on the same client, one for each element of a list of
  network behaviours, as the polling loop of \<open>main\<close> makes them. A call that raises ends
  the run: \<open>main\<close> catches nothing. The result lists what each call made returned.
\<close>

fun send_run ::
    "(str \<Rightarrow> pyval option) \<Rightarrow> hs110 \<Rightarrow> bytes \<Rightarrow> net list \<Rightarrow> (exn option \<times> hs110 \<times> sock) list" where
  "send_run json_loads self command [] = []"
| "send_run json_loads self command (n # ns) =
     (case send json_loads self command n of
        (None, self1, sk) \<Rightarrow> (None, self1, sk) # send_run json_loads self1 command ns
      | (Some e, self1, sk) \<Rightarrow> [(Some e, self1, sk)])"

text \<open>The behaviours of the network in which the exchange fails.\<close>

fun transport_failure :: "net \<Rightarrow> bool" where
  "transport_failure ConnectError = True"
| "transport_failure SendError = True"
| "transport_failure RecvError = True"
| "transport_failure (Reply data) = False"

section \<open>Notation for the stored data, and a client to evaluate on\<close>

text \<open>
  A \<open>json.loads\<close> that raises on every text, as \<open>json.loads\<close> does on each text that
  is not JSON; for evaluating calls whose reply is not JSON.
\<close>

fun no_json :: "str \<Rightarrow> pyval option" where
  "no_json text = None"

text \<open>
  A \<open>json.loads\<close> known on the text \<open>{}\<close>, the empty object, and on the texts that are
  not JSON.
\<close>

fun loads_braces :: "str \<Rightarrow> pyval option" where
  "loads_braces text = (if text = py_str ''{}'' then Some (PDict []) else None)"

text \<open>The two levels under which the client keeps the readout.\<close>

abbreviation realtime :: "(str \<times> pyval) list \<Rightarrow> pyval" where
  "realtime kvs \<equiv> PDict [(py_str ''emeter'', PDict [(py_str ''get_realtime'', PDict kvs)])]"

text \<open>
  A client of hardware version 2 that holds the readout of the comment in \<open>send\<close>, with a
  given retry counter.
\<close>

definition example_client :: "int \<Rightarrow> hs110" where
  "example_client c =
     \<lparr>hardware = py_str ''h2'',
      received_data =
        realtime [(py_str ''voltage_mv'', PInt 229865),
                  (py_str ''current_ma'', PInt 1110),
                  (py_str ''power_mw'', PInt 231866),
                  (py_str ''total_wh'', PInt 228),
                  (py_str ''err_code'', PInt 0)],
      ip = py_str ''192.168.1.53'',
      port = 9999,
      socket_counter = c\<rparr>"

section \<open>Properties of the cipher\<close>

lemma encrypt_loop_append:
  "encrypt_loop key xs result = result @ encrypt_loop key xs []"
proof (induction xs arbitrary: key result)
  case Nil
  show ?case by simp
next
  case (Cons i rest)
  have "encrypt_loop key (i # rest) result = encrypt_loop (key XOR i) rest (result @ [key XOR i])"
    by (simp add: Let_def)
  also have "\<dots> = (result @ [key XOR i]) @ encrypt_loop (key XOR i) rest []"
    by (rule Cons.IH)
  also have "\<dots> = result @ encrypt_loop (key XOR i) rest [key XOR i]"
    using Cons.IH [of "key XOR i" "[key XOR i]"] by simp
  finally show ?case by (simp add: Let_def)
qed

lemma decrypt_loop_append:
  "decrypt_loop key xs result = result @ decrypt_loop key xs []"
proof (induction xs arbitrary: key result)
  case Nil
  show ?case by simp
next
  case (Cons i rest)
  have "decrypt_loop key (i # rest) result = decrypt_loop i rest (result @ [key XOR i])"
    by (simp add: Let_def)
  also have "\<dots> = (result @ [key XOR i]) @ decrypt_loop i rest []"
    by (rule Cons.IH)
  also have "\<dots> = result @ decrypt_loop i rest [key XOR i]"
    using Cons.IH [of i "[key XOR i]"] by simp
  finally show ?case by (simp add: Let_def)
qed

lemma encrypt_loop_Cons:
  "encrypt_loop key (i # rest) [] = (key XOR i) # encrypt_loop (key XOR i) rest []"
  using encrypt_loop_append [of "key XOR i" rest "[key XOR i]"] by (simp add: Let_def)

lemma decrypt_loop_Cons:
  "decrypt_loop key (i # rest) [] = (key XOR i) # decrypt_loop i rest []"
  using decrypt_loop_append [of i rest "[key XOR i]"] by (simp add: Let_def)

lemma length_encrypt_loop:
  "length (encrypt_loop key xs result) = length result + length xs"
  by (induction xs arbitrary: key result) (simp_all add: Let_def)

lemma decrypt_encrypt_loop:
  "decrypt_loop key (encrypt_loop key xs []) [] = xs"
proof (induction xs arbitrary: key)
  case Nil
  show ?case by simp
next
  case (Cons i rest)
  have "key XOR (key XOR i) = i"
    by (simp add: xor.assoc [symmetric])
  then show ?case
    by (simp only: encrypt_loop_Cons decrypt_loop_Cons Cons.IH)
qed

lemma decode_encode_latin1:
  "\<forall>c \<in> set s. c < 256 \<Longrightarrow> decode_latin1 (encode_latin1 s) = s"
  by (induction s) (simp_all add: decode_latin1_def encode_latin1_def unat_of_nat)

lemma encrypt_frame:
  "0 < length s \<Longrightarrow> length s < 256 \<Longrightarrow>
   encrypt s = Inr ([0, 0, 0, of_nat (length s)] @ encrypt_loop hs110_key (encode_latin1 s) [])"
  using encrypt_loop_append [of hs110_key "encode_latin1 s" "[0, 0, 0, of_nat (length s)]"]
  by (simp add: encrypt_def)

lemma decrypt_frame:
  "decrypt ([0, 0, 0, n] @ body) = Inr (decode_latin1 (decrypt_loop hs110_key body []))"
  by (simp add: decrypt_def frame_ok_def)

text \<open>The command that \<open>connect\<close> sends, as bytes.\<close>

lemma get_cmd_frame:
  "get_cmd =
     Inr [0, 0, 0, 30, 208, 242, 151, 250, 159, 235, 142, 252, 222, 228, 159, 189, 218, 191,
          203, 148, 230, 131, 226, 142, 250, 147, 254, 155, 185, 131, 248, 133, 248, 133]"
  by (simp add: get_cmd_def encrypt_def py_str_def encode_latin1_def hs110_key_def Let_def)

lemma connect_sends_get_cmd:
  "\<exists>command. get_cmd = Inr command \<and> connect json_loads self n = send json_loads self command n"
  by (simp add: connect_def get_cmd_frame)

text \<open>
  C1, as amended. For every string \<open>s\<close> of 1 to 255 characters, each a code point below
  256 (ASCII or Latin-1), \<open>__encrypt\<close> returns a frame and \<open>__decrypt\<close> of that frame
  returns \<open>s\<close>. (From 256 characters on, \<open>__encrypt\<close> raises.)
\<close>

theorem decrypt_encrypt_roundtrip:
  assumes "0 < length s" and "length s < 256" and "\<forall>c \<in> set s. c < 256"
  shows "\<exists>frame. encrypt s = Inr frame \<and> decrypt frame = Inr s"
proof -
  let ?body = "encrypt_loop hs110_key (encode_latin1 s) []"
  let ?frame = "[0, 0, 0, of_nat (length s)] @ ?body"
  have enc: "encrypt s = Inr ?frame"
    using assms(1,2) by (rule encrypt_frame)
  have "decrypt ?frame = Inr (decode_latin1 (decrypt_loop hs110_key ?body []))"
    by (rule decrypt_frame)
  also have "\<dots> = Inr (decode_latin1 (encode_latin1 s))"
    by (simp only: decrypt_encrypt_loop)
  also have "\<dots> = Inr s"
    using assms(3) by (simp only: decode_encode_latin1)
  finally show ?thesis
    using enc by blast
qed

theorem decrypt_encrypt_roundtrip_witness:
  "0 < length [104, 105 :: nat] \<and> length [104, 105 :: nat] < 256
   \<and> list_all (\<lambda>c. c < 256) [104, 105 :: nat]
   \<and> (\<exists>frame. encrypt [104, 105] = Inr frame \<and> decrypt frame = Inr [104, 105])"
proof -
  have h1: "0 < length [104, 105 :: nat]" by simp
  have h2: "length [104, 105 :: nat] < 256" by simp
  have h3: "\<forall>c \<in> set [104, 105 :: nat]. c < 256" by simp
  have "\<exists>frame. encrypt [104, 105] = Inr frame \<and> decrypt frame = Inr [104, 105]"
    using h1 h2 h3 by (rule decrypt_encrypt_roundtrip)
  then show ?thesis
    by simp
qed

text \<open>
  C1 as stated fails: a string of 256 letters \<open>A\<close> is a non-empty ASCII string, and
  \<open>__encrypt\<close> raises \<open>ValueError\<close> on it at \<open>bytes([len(string)])\<close>, so there is
  no frame to decrypt.
\<close>

theorem encrypt_256_chars_raises:
  "encrypt (replicate 256 65) = Inl ValueError"
  by (simp add: encrypt_def)

text \<open>
  C4, as amended. \<open>__decrypt\<close> fails with the contract's \<open>PreconditionError\<close> exactly
  when its input has at most 3 bytes or its first 3 bytes are not all zero. An input of
  4 bytes that starts with three zero bytes is accepted and decrypts to the empty string.
\<close>

theorem decrypt_header_rejection:
  "(decrypt data = Inl PreconditionError
      \<longleftrightarrow> length data \<le> 3 \<or> take 3 data \<noteq> [0, 0, 0])
   \<and> (length data = 4 \<and> take 3 data = [0, 0, 0] \<longrightarrow> decrypt data = Inr [])"
proof (intro conjI impI)
  show "decrypt data = Inl PreconditionError
      \<longleftrightarrow> length data \<le> 3 \<or> take 3 data \<noteq> [0, 0, 0]"
    by (auto simp: decrypt_def frame_ok_def)
next
  assume four: "length data = 4 \<and> take 3 data = [0, 0, 0]"
  then have "drop 4 data = []" by simp
  with four show "decrypt data = Inr []"
    by (simp add: decrypt_def frame_ok_def decode_latin1_def)
qed

theorem decrypt_header_rejection_witness:
  "take 3 [1, 0, 0, 0, 0 :: byte] \<noteq> [0, 0, 0]
   \<and> decrypt [1, 0, 0, 0, 0] = Inl PreconditionError
   \<and> length [0, 0, 0, 7 :: byte] = 4 \<and> take 3 [0, 0, 0, 7 :: byte] = [0, 0, 0]
   \<and> decrypt [0, 0, 0, 7] = Inr []"
  using decrypt_header_rejection [of "[1, 0, 0, 0, 0]"]
    decrypt_header_rejection [of "[0, 0, 0, 7]"]
  by simp

text \<open>
  C4 as stated fails: the 4-byte input \<open>b"\0\0\0\0"\<close> is shorter than 5 bytes, and
  \<open>__decrypt\<close> accepts it (its contract asks for more than 3 bytes) and returns \<open>""\<close>.
\<close>

theorem decrypt_four_bytes_accepted:
  "length [0, 0, 0, 0 :: byte] < 5 \<and> decrypt [0, 0, 0, 0] = Inr []"
  by (simp add: decrypt_def frame_ok_def decode_latin1_def)

text \<open>
  C8, as amended. For every plaintext of 1 to 255 characters, \<open>__encrypt\<close> returns a
  frame that starts with three zero bytes and one byte holding the length of the
  plaintext (which is then its own residue mod 256), followed by one cipher byte for each
  character. For every plaintext of 256 characters or more, \<open>__encrypt\<close> raises
  \<open>ValueError\<close>: the length is not truncated.
\<close>

theorem encrypt_header:
  "(0 < length s \<and> length s < 256 \<longrightarrow>
      (\<exists>body. encrypt s = Inr ([0, 0, 0, of_nat (length s)] @ body)
         \<and> length body = length s
         \<and> unat (of_nat (length s) :: byte) = length s mod 256
         \<and> length s mod 256 = length s))
   \<and> (256 \<le> length s \<longrightarrow> encrypt s = Inl ValueError)"
proof (intro conjI impI)
  assume len: "0 < length s \<and> length s < 256"
  let ?body = "encrypt_loop hs110_key (encode_latin1 s) []"
  have "encrypt s = Inr ([0, 0, 0, of_nat (length s)] @ ?body)"
    using len by (simp add: encrypt_frame)
  moreover have "length ?body = length s"
    by (simp add: length_encrypt_loop encode_latin1_def)
  moreover have "unat (of_nat (length s) :: byte) = length s mod 256"
    by (simp add: unat_of_nat)
  moreover have "length s mod 256 = length s"
    using len by simp
  ultimately show "\<exists>body. encrypt s = Inr ([0, 0, 0, of_nat (length s)] @ body)
         \<and> length body = length s
         \<and> unat (of_nat (length s) :: byte) = length s mod 256
         \<and> length s mod 256 = length s"
    by blast
next
  assume "256 \<le> length s"
  then show "encrypt s = Inl ValueError"
    by (auto simp: encrypt_def)
qed

theorem encrypt_header_witness:
  "0 < length [123, 125 :: nat] \<and> length [123, 125 :: nat] < 256
   \<and> (\<exists>body. encrypt [123, 125] = Inr ([0, 0, 0, 2] @ body)
          \<and> length body = length [123, 125 :: nat])
   \<and> 256 \<le> length (replicate 256 (0 :: nat))
   \<and> encrypt (replicate 256 0) = Inl ValueError"
  using encrypt_header [of "[123, 125]"] encrypt_header [of "replicate 256 0"]
  by simp

text \<open>
  C8 as stated fails: on a plaintext of 300 letters \<open>a\<close>, \<open>__encrypt\<close> raises
  \<open>ValueError\<close>; it does not return a frame whose fourth byte is \<open>300 mod 256 = 44\<close>.
\<close>

theorem encrypt_300_chars_raises:
  "encrypt (replicate 300 97) = Inl ValueError
   \<and> encrypt (replicate 300 97)
       \<noteq> Inr (encrypt_loop hs110_key (encode_latin1 (replicate 300 97)) [0, 0, 0, 44])"
  by (simp add: encrypt_def)

section \<open>Properties of the client\<close>

lemma h1_neq_h2: "py_str ''h1'' \<noteq> py_str ''h2''"
  by (simp add: py_str_def)

lemma empty_data_h1:
  "hardware self = py_str ''h1'' \<Longrightarrow>
   empty_data self =
     Inr (PDict [(py_str ''emeter'',
            PDict [(py_str ''get_realtime'',
              PDict [(py_str ''current'', PInt 0),
                     (py_str ''voltage'', PInt 0),
                     (py_str ''power'', PInt 0),
                     (py_str ''total'', PInt 0),
                     (py_str ''err_code'', PInt 0)])])])"
  by (simp add: empty_data_def keyname_def dict_get_def py_str_def)

lemma empty_data_h2:
  "hardware self = py_str ''h2'' \<Longrightarrow>
   empty_data self =
     Inr (PDict [(py_str ''emeter'',
            PDict [(py_str ''get_realtime'',
              PDict [(py_str ''current_ma'', PInt 0),
                     (py_str ''voltage_mv'', PInt 0),
                     (py_str ''power_mw'', PInt 0),
                     (py_str ''total_wh'', PInt 0),
                     (py_str ''err_code'', PInt 0)])])])"
  by (simp add: empty_data_def keyname_def dict_get_def py_str_def)

lemma send_failure:
  "transport_failure n \<Longrightarrow>
   send json_loads self command n =
     (if socket_counter self - 1 = 0 then Some SystemExit else None,
      self\<lparr>socket_counter := socket_counter self - 1\<rparr>, SockOpen)"
  by (cases n) (simp_all add: send_def send_try_def send_except_def Let_def)

lemma send_run_failures:
  "\<forall>n \<in> set ns. transport_failure n \<Longrightarrow> int (length ns) \<le> socket_counter self \<Longrightarrow>
   send_run json_loads self command ns =
     map (\<lambda>i. (if socket_counter self - int (Suc i) = 0 then Some SystemExit else None,
               self\<lparr>socket_counter := socket_counter self - int (Suc i)\<rparr>, SockOpen))
       [0 ..< length ns]"
proof (induction ns arbitrary: self)
  case Nil
  show ?case by simp
next
  case (Cons n ns)
  let ?self1 = "self\<lparr>socket_counter := socket_counter self - 1\<rparr>"
  have fail: "transport_failure n" and rest: "\<forall>m \<in> set ns. transport_failure m"
    using Cons.prems(1) by simp_all
  have step: "send json_loads self command n =
     (if socket_counter self - 1 = 0 then Some SystemExit else None, ?self1, SockOpen)"
    using fail by (rule send_failure)
  show ?case
  proof (cases "socket_counter self - 1 = 0")
    case True
    then have "ns = []" using Cons.prems(2) by simp
    then show ?thesis using step True by simp
  next
    case False
    have len: "int (length ns) \<le> socket_counter ?self1"
      using Cons.prems(2) by simp
    have ih: "send_run json_loads ?self1 command ns =
       map (\<lambda>i. (if socket_counter ?self1 - int (Suc i) = 0 then Some SystemExit else None,
               ?self1\<lparr>socket_counter := socket_counter ?self1 - int (Suc i)\<rparr>, SockOpen))
       [0 ..< length ns]"
      using rest len by (rule Cons.IH)
    have "send_run json_loads self command (n # ns) =
        (None, ?self1, SockOpen) # send_run json_loads ?self1 command ns"
      using step False by simp
    then show ?thesis
      using False by (simp add: ih map_upt_Suc del: upt_Suc) 
  qed
qed

lemma getitem_exn: "getitem v k = Inl e \<Longrightarrow> e = KeyError \<or> e = TypeError"
  by (cases v) (auto simp: dict_get_def split: option.splits)

lemma contains_exn: "contains k v = Inl e \<Longrightarrow> e = TypeError"
  by (cases v) auto

lemma receive_exn:
  "receive json_loads self data = (Some e, self') \<Longrightarrow>
   e = PreconditionError \<or> e = ValueError \<or> e = KeyError \<or> e = TypeError"
  by (auto simp: receive_def Let_def split: if_splits option.splits sum.splits
      dest: getitem_exn contains_exn)

lemma receive_counter:
  "socket_counter (snd (receive json_loads self data)) = socket_counter self"
  by (simp add: receive_def Let_def split: option.splits sum.splits)

lemma reset_data_counter:
  "socket_counter (snd (reset_data self)) = socket_counter self"
  by (simp add: reset_data_def split: sum.splits)

lemma send_reply_counter:
  "socket_counter (fst (snd (send json_loads self command (Reply data)))) = SOCKET_RETRY"
proof -
  let ?self1 = "self\<lparr>socket_counter := SOCKET_RETRY\<rparr>"
  obtain r self2 where rcv: "receive json_loads ?self1 data = (r, self2)"
    by (cases "receive json_loads ?self1 data")
  have c2: "socket_counter self2 = SOCKET_RETRY"
    using receive_counter [of json_loads ?self1 data] rcv by simp
  show ?thesis
  proof (cases r)
    case None
    then show ?thesis using rcv c2 by (simp add: send_def send_try_def Let_def)
  next
    case (Some e)
    then have "e \<noteq> OSError" using rcv receive_exn [of json_loads ?self1 data e self2] by auto
    then show ?thesis
      using rcv c2 Some reset_data_counter [of self2]
      by (auto simp: send_def send_try_def send_except_def Let_def split: prod.splits)
  qed
qed

lemma send_bad_frame:
  "\<not> frame_ok data \<Longrightarrow>
   send json_loads self command (Reply data) =
     (Some PreconditionError, self\<lparr>socket_counter := SOCKET_RETRY\<rparr>, SockClosed)"
  by (simp add: send_def send_try_def send_except_def receive_def Let_def)

lemma send_parse_failure:
  "decrypt data = Inr text \<Longrightarrow> json_loads text = None \<Longrightarrow> empty_data self = Inr d \<Longrightarrow>
   send json_loads self command (Reply data) =
     (None, self\<lparr>socket_counter := SOCKET_RETRY, received_data := d\<rparr>, SockClosed)"
proof -
  assume dec: "decrypt data = Inr text" and js: "json_loads text = None"
    and emp: "empty_data self = Inr d"
  have ok: "frame_ok data"
    using dec by (auto simp: decrypt_def split: if_splits)
  have emp1: "empty_data (self\<lparr>socket_counter := SOCKET_RETRY\<rparr>) = Inr d"
    using emp by (simp add: empty_data_def)
  have "receive json_loads (self\<lparr>socket_counter := SOCKET_RETRY\<rparr>) data =
      (Some ValueError, self\<lparr>socket_counter := SOCKET_RETRY\<rparr>)"
    using ok dec js by (simp add: receive_def)
  then show ?thesis
    using emp1 by (simp add: send_def send_try_def send_except_def reset_data_def Let_def)
qed

lemma float_of_int_0: "float_of_int 0 = Inr (Finite 0)"
  by (simp add: float_of_int_def)

lemma get_data_zero_h1:
  assumes "hardware self = py_str ''h1''"
    and "received_data self =
      realtime [(py_str ''current'', PInt 0),
                (py_str ''voltage'', PInt 0),
                (py_str ''power'', PInt 0),
                (py_str ''total'', PInt 0),
                (py_str ''err_code'', PInt 0)]"
    and "item \<in> set [py_str ''current'', py_str ''voltage'', py_str ''power'', py_str ''total'']"
  shows "get_data str_to_float self item = Inr (Finite 0)"
  using assms
  by (auto simp: get_data_def get_data_try_def keyname_def dict_get_def py_str_def
      float_of_int_0)

lemma get_data_zero_h2:
  assumes "hardware self = py_str ''h2''"
    and "received_data self =
      realtime [(py_str ''current_ma'', PInt 0),
                (py_str ''voltage_mv'', PInt 0),
                (py_str ''power_mw'', PInt 0),
                (py_str ''total_wh'', PInt 0),
                (py_str ''err_code'', PInt 0)]"
    and "item \<in> set [py_str ''current'', py_str ''voltage'', py_str ''power'', py_str ''total'']"
  shows "get_data str_to_float self item = Inr (Finite 0)"
  using assms
  by (auto simp: get_data_def get_data_try_def keyname_def dict_get_def py_str_def
      float_of_int_0)

text \<open>
  C5. On every transport-level failure in a call of \<open>send\<close> (\<open>connect\<close>, \<open>send\<close> or
  \<open>recv\<close> raises \<open>socket.error\<close>, which a timeout is), the retry counter decreases by
  exactly 1 and the rest of the client, the stored data, the hardware version, the host
  and the port, is unchanged.
\<close>

theorem send_transport_failure_frame:
  assumes "transport_failure n"
  shows "fst (snd (send json_loads self command n))
           = self\<lparr>socket_counter := socket_counter self - 1\<rparr>
     \<and> socket_counter (fst (snd (send json_loads self command n))) = socket_counter self - 1
     \<and> received_data (fst (snd (send json_loads self command n))) = received_data self
     \<and> hardware (fst (snd (send json_loads self command n))) = hardware self
     \<and> ip (fst (snd (send json_loads self command n))) = ip self
     \<and> port (fst (snd (send json_loads self command n))) = port self"
  using assms by (simp add: send_failure)

theorem send_transport_failure_frame_witness:
  "transport_failure RecvError
   \<and> fst (snd (send no_json (example_client 7) [] RecvError)) = example_client 6"
proof -
  have h: "transport_failure RecvError" by simp
  show ?thesis
    using h send_transport_failure_frame [OF h, of no_json "example_client 7" "[]"]
    by (simp add: example_client_def)
qed

text \<open>
  C6. A transport success in a call of \<open>send\<close> (\<open>connect\<close>, \<open>send\<close> and \<open>recv\<close> all
  succeed) leaves the retry counter at exactly 100, whatever it was before and whatever
  \<open>receive\<close> then does with the reply: return, raise the \<open>ValueError\<close> that resets the
  data, or raise an exception that propagates.
\<close>

theorem send_transport_success_resets_counter:
  "socket_counter (fst (snd (send json_loads self command (Reply data)))) = 100"
  using send_reply_counter [of json_loads self command data] by (simp add: SOCKET_RETRY_def)

theorem send_transport_success_resets_counter_witness:
  "socket_counter (fst (snd (send no_json (example_client 1) [] (Reply [0, 0, 0, 0, 0]))))
     = 100
   \<and> socket_counter (fst (snd (send no_json (example_client 1) [] (Reply [])))) = 100"
  using send_transport_success_resets_counter
          [of no_json "example_client 1" "[]" "[0, 0, 0, 0, 0]"]
        send_transport_success_resets_counter [of no_json "example_client 1" "[]" "[]"]
  by simp

text \<open>
  C9 fails on the code. \<open>sock_tcp.close()\<close> is the statement after \<open>recv\<close> in the
  \<open>try\<close> block: when \<open>connect\<close>, \<open>send\<close> or \<open>recv\<close> raises, \<open>send\<close> returns (or exits)
  without having closed the socket it created. After a reply the socket is closed,
  whatever \<open>receive\<close> does.
\<close>

theorem send_socket_after_call:
  "snd (snd (send json_loads self command ConnectError)) = SockOpen
   \<and> snd (snd (send json_loads self command SendError)) = SockOpen
   \<and> snd (snd (send json_loads self command RecvError)) = SockOpen
   \<and> snd (snd (send json_loads self command (Reply data))) = SockClosed"
  by (simp add: send_failure)
    (simp add: send_def send_try_def Let_def split: prod.splits option.splits)

theorem send_socket_after_call_witness:
  "send no_json (example_client 100) [] ConnectError
     = (None, example_client 99, SockOpen)"
  using send_socket_after_call [of no_json "example_client 100" "[]" "[]"]
    send_failure [of ConnectError no_json "example_client 100" "[]"]
  by (simp add: example_client_def)

text \<open>
  C2. From a client whose retry counter is 100, a run of 100 calls of \<open>send\<close> that all
  fail at the transport level makes exactly 100 calls; the first 99 return, the 100th
  raises \<open>SystemExit\<close>; after every one of them the stored data is what it was before
  the run, and the retry counter is between 0 and 100.
\<close>

theorem retry_exhaustion:
  assumes "socket_counter self = SOCKET_RETRY"
    and "length ns = 100"
    and "\<forall>n \<in> set ns. transport_failure n"
  shows "length (send_run json_loads self command ns) = 100
     \<and> (\<forall>i < 99. fst (send_run json_loads self command ns ! i) = None)
     \<and> fst (send_run json_loads self command ns ! 99) = Some SystemExit
     \<and> (\<forall>i < 100.
          received_data (fst (snd (send_run json_loads self command ns ! i))) = received_data self
          \<and> 0 \<le> socket_counter (fst (snd (send_run json_loads self command ns ! i)))
          \<and> socket_counter (fst (snd (send_run json_loads self command ns ! i))) \<le> 100)"
proof -
  let ?f = "\<lambda>i. (if socket_counter self - int (Suc i) = 0 then Some SystemExit else None,
               self\<lparr>socket_counter := socket_counter self - int (Suc i)\<rparr>, SockOpen)"
  have c: "socket_counter self = 100"
    using assms(1) by (simp add: SOCKET_RETRY_def)
  have "int (length ns) \<le> socket_counter self"
    using assms(2) c by simp
  with assms(3) have run: "send_run json_loads self command ns = map ?f [0 ..< length ns]"
    by (rule send_run_failures)
  have nth: "send_run json_loads self command ns ! i = ?f i" if "i < 100" for i
    using that run assms(2) by simp
  have "length (send_run json_loads self command ns) = 100"
    using run assms(2) by simp
  moreover have "\<forall>i < 99. fst (send_run json_loads self command ns ! i) = None"
    using nth c by simp
  moreover have "fst (send_run json_loads self command ns ! 99) = Some SystemExit"
    using nth [of 99] c by simp
  moreover have "\<forall>i < 100.
          received_data (fst (snd (send_run json_loads self command ns ! i))) = received_data self
          \<and> 0 \<le> socket_counter (fst (snd (send_run json_loads self command ns ! i)))
          \<and> socket_counter (fst (snd (send_run json_loads self command ns ! i))) \<le> 100"
    using nth c by simp
  ultimately show ?thesis by blast
qed

theorem retry_exhaustion_witness:
  "socket_counter (example_client 100) = SOCKET_RETRY
   \<and> length (replicate 100 ConnectError) = 100
   \<and> list_all transport_failure (replicate 100 ConnectError)
   \<and> length (send_run no_json (example_client 100) [] (replicate 100 ConnectError)) = 100
   \<and> fst (send_run no_json (example_client 100) [] (replicate 100 ConnectError) ! 98)
       = None
   \<and> fst (send_run no_json (example_client 100) [] (replicate 100 ConnectError) ! 99)
       = Some SystemExit
   \<and> received_data
       (fst (snd (send_run no_json (example_client 100) [] (replicate 100 ConnectError) ! 99)))
       = received_data (example_client 100)"
proof -
  have h1: "socket_counter (example_client 100) = SOCKET_RETRY"
    by (simp add: example_client_def SOCKET_RETRY_def)
  have h2: "length (replicate 100 ConnectError) = 100"
    by simp
  have h3: "\<forall>n \<in> set (replicate 100 ConnectError). transport_failure n"
    by simp
  have h3': "list_all transport_failure (replicate 100 ConnectError)"
    by (simp add: list_all_iff)
  show ?thesis
    using h1 h2 h3' retry_exhaustion [OF h1 h2 h3, of no_json "[]"]
    by simp
qed

lemma send_receive_raises:
  assumes rcv: "receive json_loads (self\<lparr>socket_counter := SOCKET_RETRY\<rparr>) data = (Some e, self2)"
    and e: "e \<noteq> OSError" "e \<noteq> ValueError"
  shows "send json_loads self command (Reply data) = (Some e, self2, SockClosed)"
  using rcv e by (simp add: send_def send_try_def send_except_def Let_def)

text \<open>
  C3 fails on the code. After a successful exchange, \<open>send\<close> resets the stored data to
  the all-zero data and returns normally only when the reply satisfies the contract of
  \<open>receive\<close> and its decrypted text is not JSON: \<open>receive\<close> raises \<open>ValueError\<close>, which
  \<open>send\<close> catches. A reply of at most 3 bytes, or whose first 3 bytes are not all zero,
  fails the contract of \<open>receive\<close>; the \<open>PreconditionError\<close> is raised outside the
  \<open>try\<close> of \<open>receive\<close>, no \<open>except\<close> clause of \<open>send\<close> catches it, and it leaves
  \<open>send\<close> with the stored data not reset. JSON without \<open>emeter\<close>, without
  \<open>get_realtime\<close> under it, or with a value there that has no members, makes \<open>receive\<close>
  raise \<open>KeyError\<close> or \<open>TypeError\<close> after it has stored the payload; that exception
  leaves \<open>send\<close> too. In every case the retry counter is 100, as after any successful
  exchange.
\<close>

theorem send_undecodable_reply:
  assumes "hardware self = py_str ''h1'' \<or> hardware self = py_str ''h2''"
  shows "(decrypt data = Inr plain \<and> json_loads plain = None \<longrightarrow>
            send json_loads self command (Reply data) =
              (None,
               self\<lparr>socket_counter := 100,
                    received_data :=
                      (if hardware self = py_str ''h1''
                       then realtime [(py_str ''current'', PInt 0),
                                      (py_str ''voltage'', PInt 0),
                                      (py_str ''power'', PInt 0),
                                      (py_str ''total'', PInt 0),
                                      (py_str ''err_code'', PInt 0)]
                       else realtime [(py_str ''current_ma'', PInt 0),
                                      (py_str ''voltage_mv'', PInt 0),
                                      (py_str ''power_mw'', PInt 0),
                                      (py_str ''total_wh'', PInt 0),
                                      (py_str ''err_code'', PInt 0)])\<rparr>,
               SockClosed))
     \<and> (\<not> frame_ok data \<longrightarrow>
            send json_loads self command (Reply data) =
              (Some PreconditionError, self\<lparr>socket_counter := 100\<rparr>, SockClosed))
     \<and> (decrypt data = Inr plain \<and> json_loads plain = Some payload
          \<and> getitem payload (py_str ''emeter'') = Inl e \<longrightarrow>
            send json_loads self command (Reply data) =
              (Some e, self\<lparr>socket_counter := 100, received_data := payload\<rparr>, SockClosed)
            \<and> (e = KeyError \<or> e = TypeError))
     \<and> (decrypt data = Inr plain \<and> json_loads plain = Some payload
          \<and> getitem payload (py_str ''emeter'') = Inr em
          \<and> getitem em (py_str ''get_realtime'') = Inl e \<longrightarrow>
            send json_loads self command (Reply data) =
              (Some e, self\<lparr>socket_counter := 100, received_data := payload\<rparr>, SockClosed)
            \<and> (e = KeyError \<or> e = TypeError))
     \<and> (decrypt data = Inr plain \<and> json_loads plain = Some payload
          \<and> getitem payload (py_str ''emeter'') = Inr em
          \<and> getitem em (py_str ''get_realtime'') = Inr rt
          \<and> contains (py_str ''current_ma'') rt = Inl e \<longrightarrow>
            send json_loads self command (Reply data) =
              (Some e, self\<lparr>socket_counter := 100, received_data := payload\<rparr>, SockClosed)
            \<and> e = TypeError)"
proof (intro conjI impI)
  assume fail: "decrypt data = Inr plain \<and> json_loads plain = None"
  have dec: "decrypt data = Inr plain" and js: "json_loads plain = None"
    using fail by simp_all
  show "send json_loads self command (Reply data) =
              (None,
               self\<lparr>socket_counter := 100,
                    received_data :=
                      (if hardware self = py_str ''h1''
                       then realtime [(py_str ''current'', PInt 0),
                                      (py_str ''voltage'', PInt 0),
                                      (py_str ''power'', PInt 0),
                                      (py_str ''total'', PInt 0),
                                      (py_str ''err_code'', PInt 0)]
                       else realtime [(py_str ''current_ma'', PInt 0),
                                      (py_str ''voltage_mv'', PInt 0),
                                      (py_str ''power_mw'', PInt 0),
                                      (py_str ''total_wh'', PInt 0),
                                      (py_str ''err_code'', PInt 0)])\<rparr>,
               SockClosed)"
  proof (cases "hardware self = py_str ''h1''")
    case True
    from dec js empty_data_h1 [OF True]
    have "send json_loads self command (Reply data) =
        (None, self\<lparr>socket_counter := SOCKET_RETRY,
                    received_data := realtime [(py_str ''current'', PInt 0),
                                      (py_str ''voltage'', PInt 0),
                                      (py_str ''power'', PInt 0),
                                      (py_str ''total'', PInt 0),
                                      (py_str ''err_code'', PInt 0)]\<rparr>, SockClosed)"
      by (rule send_parse_failure)
    then show ?thesis
      using True by (simp add: SOCKET_RETRY_def)
  next
    case False
    then have h2: "hardware self = py_str ''h2''"
      using assms by simp
    from dec js empty_data_h2 [OF h2]
    have "send json_loads self command (Reply data) =
        (None, self\<lparr>socket_counter := SOCKET_RETRY,
                    received_data := realtime [(py_str ''current_ma'', PInt 0),
                                      (py_str ''voltage_mv'', PInt 0),
                                      (py_str ''power_mw'', PInt 0),
                                      (py_str ''total_wh'', PInt 0),
                                      (py_str ''err_code'', PInt 0)]\<rparr>, SockClosed)"
      by (rule send_parse_failure)
    then show ?thesis
      using False by (simp add: SOCKET_RETRY_def)
  qed
next
  assume "\<not> frame_ok data"
  then show "send json_loads self command (Reply data) =
              (Some PreconditionError, self\<lparr>socket_counter := 100\<rparr>, SockClosed)"
    by (simp add: send_bad_frame SOCKET_RETRY_def)
next
  assume a: "decrypt data = Inr plain \<and> json_loads plain = Some payload
          \<and> getitem payload (py_str ''emeter'') = Inl e"
  then have ok: "frame_ok data"
    by (auto simp: decrypt_def split: if_splits)
  from a show e: "e = KeyError \<or> e = TypeError"
    by (auto dest: getitem_exn)
  have "receive json_loads (self\<lparr>socket_counter := SOCKET_RETRY\<rparr>) data =
      (Some e, self\<lparr>socket_counter := SOCKET_RETRY, received_data := payload\<rparr>)"
    using a ok by (simp add: receive_def Let_def)
  then have "send json_loads self command (Reply data) =
      (Some e, self\<lparr>socket_counter := SOCKET_RETRY, received_data := payload\<rparr>, SockClosed)"
    using e by (intro send_receive_raises) auto
  then show "send json_loads self command (Reply data) =
              (Some e, self\<lparr>socket_counter := 100, received_data := payload\<rparr>, SockClosed)"
    by (simp add: SOCKET_RETRY_def)
next
  assume a: "decrypt data = Inr plain \<and> json_loads plain = Some payload
          \<and> getitem payload (py_str ''emeter'') = Inr em
          \<and> getitem em (py_str ''get_realtime'') = Inl e"
  then have ok: "frame_ok data"
    by (auto simp: decrypt_def split: if_splits)
  from a show e: "e = KeyError \<or> e = TypeError"
    by (auto dest: getitem_exn)
  have "receive json_loads (self\<lparr>socket_counter := SOCKET_RETRY\<rparr>) data =
      (Some e, self\<lparr>socket_counter := SOCKET_RETRY, received_data := payload\<rparr>)"
    using a ok by (simp add: receive_def Let_def)
  then have "send json_loads self command (Reply data) =
      (Some e, self\<lparr>socket_counter := SOCKET_RETRY, received_data := payload\<rparr>, SockClosed)"
    using e by (intro send_receive_raises) auto
  then show "send json_loads self command (Reply data) =
              (Some e, self\<lparr>socket_counter := 100, received_data := payload\<rparr>, SockClosed)"
    by (simp add: SOCKET_RETRY_def)
next
  assume a: "decrypt data = Inr plain \<and> json_loads plain = Some payload
          \<and> getitem payload (py_str ''emeter'') = Inr em
          \<and> getitem em (py_str ''get_realtime'') = Inr rt
          \<and> contains (py_str ''current_ma'') rt = Inl e"
  then have ok: "frame_ok data"
    by (auto simp: decrypt_def split: if_splits)
  from a show e: "e = TypeError"
    by (auto dest: contains_exn)
  have "receive json_loads (self\<lparr>socket_counter := SOCKET_RETRY\<rparr>) data =
      (Some e, self\<lparr>socket_counter := SOCKET_RETRY, received_data := payload\<rparr>)"
    using a ok by (simp add: receive_def Let_def)
  then have "send json_loads self command (Reply data) =
      (Some e, self\<lparr>socket_counter := SOCKET_RETRY, received_data := payload\<rparr>, SockClosed)"
    using e by (intro send_receive_raises) auto
  then show "send json_loads self command (Reply data) =
              (Some e, self\<lparr>socket_counter := 100, received_data := payload\<rparr>, SockClosed)"
    by (simp add: SOCKET_RETRY_def)
qed

theorem send_undecodable_reply_witness:
  "hardware (example_client 50) = py_str ''h2''
   \<and> \<not> frame_ok [1, 0, 0, 0, 0]
   \<and> send loads_braces (example_client 50) [] (Reply [1, 0, 0, 0, 0]) =
       (Some PreconditionError, example_client 100, SockClosed)
   \<and> \<not> frame_ok []
   \<and> send loads_braces (example_client 50) [] (Reply []) =
       (Some PreconditionError, example_client 100, SockClosed)
   \<and> decrypt [0, 0, 0, 2, 208, 173] = Inr (py_str ''{}'')
   \<and> loads_braces (py_str ''{}'') = Some (PDict [])
   \<and> send loads_braces (example_client 50) [] (Reply [0, 0, 0, 2, 208, 173]) =
       (Some KeyError, (example_client 100)\<lparr>received_data := PDict []\<rparr>, SockClosed)
   \<and> send (\<lambda>text. Some (PDict [(py_str ''emeter'', PDict [])]))
         (example_client 50) [] (Reply [0, 0, 0, 2, 208, 173]) =
       (Some KeyError,
        (example_client 100)\<lparr>received_data := PDict [(py_str ''emeter'', PDict [])]\<rparr>,
        SockClosed)
   \<and> send (\<lambda>text. Some (PDict [(py_str ''emeter'', PDict [(py_str ''get_realtime'', PInt 5)])]))
         (example_client 50) [] (Reply [0, 0, 0, 2, 208, 173]) =
       (Some TypeError,
        (example_client 100)
          \<lparr>received_data := PDict [(py_str ''emeter'', PDict [(py_str ''get_realtime'', PInt 5)])]\<rparr>,
        SockClosed)
   \<and> decrypt [0, 0, 0, 1, 171] = Inr [0]
   \<and> loads_braces [0] = None
   \<and> send loads_braces (example_client 50) [] (Reply [0, 0, 0, 1, 171]) =
       (None,
        (example_client 100)
          \<lparr>received_data := realtime [(py_str ''current_ma'', PInt 0),
                                      (py_str ''voltage_mv'', PInt 0),
                                      (py_str ''power_mw'', PInt 0),
                                      (py_str ''total_wh'', PInt 0),
                                      (py_str ''err_code'', PInt 0)]\<rparr>,
        SockClosed)"
proof -
  let ?no_rt = "PDict [(py_str ''emeter'', PDict [])]"
  let ?rt5 = "PDict [(py_str ''emeter'', PDict [(py_str ''get_realtime'', PInt 5)])]"
  have hw: "hardware (example_client 50) = py_str ''h2''"
    by (simp add: example_client_def)
  then have hw': "hardware (example_client 50) = py_str ''h1''
      \<or> hardware (example_client 50) = py_str ''h2''"
    by simp
  have neq: "py_str ''h2'' \<noteq> py_str ''h1''"
    using h1_neq_h2 by simp
  have bad1: "\<not> frame_ok [1, 0, 0, 0, 0]" and bad2: "\<not> frame_ok []"
    by (simp_all add: frame_ok_def)
  have dec0: "decrypt [0, 0, 0, 1, 171] = Inr [0]"
    by (simp add: decrypt_def frame_ok_def decode_latin1_def hs110_key_def Let_def)
  have dec: "decrypt [0, 0, 0, 2, 208, 173] = Inr (py_str ''{}'')"
    by (simp add: decrypt_def frame_ok_def decode_latin1_def hs110_key_def Let_def py_str_def)
  have js0: "loads_braces [0] = None"
    by (simp add: py_str_def)
  have js: "loads_braces (py_str ''{}'') = Some (PDict [])"
    by simp
  have g1: "getitem (PDict []) (py_str ''emeter'') = Inl KeyError"
    by (simp add: dict_get_def)
  have g2: "getitem ?no_rt (py_str ''emeter'') = Inr (PDict [])"
    and g2': "getitem (PDict []) (py_str ''get_realtime'') = Inl KeyError"
    by (simp_all add: dict_get_def)
  have g3: "getitem ?rt5 (py_str ''emeter'') = Inr (PDict [(py_str ''get_realtime'', PInt 5)])"
    and g3': "getitem (PDict [(py_str ''get_realtime'', PInt 5)]) (py_str ''get_realtime'')
        = Inr (PInt 5)"
    and g3'': "contains (py_str ''current_ma'') (PInt 5) = Inl TypeError"
    by (simp_all add: dict_get_def)
  have a1: "send loads_braces (example_client 50) [] (Reply [1, 0, 0, 0, 0]) =
       (Some PreconditionError, example_client 100, SockClosed)"
    using send_undecodable_reply [OF hw', where data = "[1, 0, 0, 0, 0]"
        and json_loads = loads_braces and command = "[]"] bad1
    by (simp add: example_client_def)
  have a2: "send loads_braces (example_client 50) [] (Reply []) =
       (Some PreconditionError, example_client 100, SockClosed)"
    using send_undecodable_reply [OF hw', where data = "[]"
        and json_loads = loads_braces and command = "[]"] bad2
    by (simp add: example_client_def)
  have b1: "send loads_braces (example_client 50) [] (Reply [0, 0, 0, 2, 208, 173]) =
       (Some KeyError, (example_client 100)\<lparr>received_data := PDict []\<rparr>, SockClosed)"
    using send_undecodable_reply [OF hw', where data = "[0, 0, 0, 2, 208, 173]"
        and plain = "py_str ''{}''" and json_loads = loads_braces and command = "[]"
        and payload = "PDict []" and e = KeyError] dec js g1
    by (simp add: example_client_def)
  have b2: "send (\<lambda>text. Some ?no_rt) (example_client 50) [] (Reply [0, 0, 0, 2, 208, 173]) =
       (Some KeyError, (example_client 100)\<lparr>received_data := ?no_rt\<rparr>, SockClosed)"
    using send_undecodable_reply [OF hw', where data = "[0, 0, 0, 2, 208, 173]"
        and plain = "py_str ''{}''" and json_loads = "\<lambda>text. Some ?no_rt" and command = "[]"
        and payload = ?no_rt and e = KeyError and em = "PDict []"] dec g2 g2'
    by (simp add: example_client_def)
  have b3: "send (\<lambda>text. Some ?rt5) (example_client 50) [] (Reply [0, 0, 0, 2, 208, 173]) =
       (Some TypeError, (example_client 100)\<lparr>received_data := ?rt5\<rparr>, SockClosed)"
    using send_undecodable_reply [OF hw', where data = "[0, 0, 0, 2, 208, 173]"
        and plain = "py_str ''{}''" and json_loads = "\<lambda>text. Some ?rt5" and command = "[]"
        and payload = ?rt5 and e = TypeError
        and em = "PDict [(py_str ''get_realtime'', PInt 5)]" and rt = "PInt 5"] dec g3 g3' g3''
    by (simp add: example_client_def)
  have c: "send loads_braces (example_client 50) [] (Reply [0, 0, 0, 1, 171]) =
       (None,
        (example_client 100)
          \<lparr>received_data := realtime [(py_str ''current_ma'', PInt 0),
                                      (py_str ''voltage_mv'', PInt 0),
                                      (py_str ''power_mw'', PInt 0),
                                      (py_str ''total_wh'', PInt 0),
                                      (py_str ''err_code'', PInt 0)]\<rparr>,
        SockClosed)"
    using send_undecodable_reply [OF hw', where data = "[0, 0, 0, 1, 171]"
        and plain = "[0]" and json_loads = loads_braces and command = "[]"] dec0 js0 hw neq
    by (simp add: example_client_def)
  show ?thesis
    using hw bad1 a1 bad2 a2 dec js b1 b2 b3 dec0 js0 c by blast
qed

lemma empty_data_cong:
  "hardware self' = hardware self \<Longrightarrow> empty_data self' = empty_data self"
  by (simp add: empty_data_def)

lemma get_data_empty:
  assumes hw: "hardware self = py_str ''h1'' \<or> hardware self = py_str ''h2''"
    and emp: "empty_data self = Inr (received_data self)"
    and item: "item \<in> set [py_str ''current'', py_str ''voltage'', py_str ''power'', py_str ''total'']"
  shows "get_data str_to_float self item = Inr (Finite 0)"
proof (cases "hardware self = py_str ''h1''")
  case True
  with emp show ?thesis
    using item by (simp only: empty_data_h1 [OF True] sum.inject get_data_zero_h1 [OF True _ item])
next
  case False
  then have h2: "hardware self = py_str ''h2''"
    using hw by simp
  with emp show ?thesis
    using item by (simp only: empty_data_h2 [OF h2] sum.inject get_data_zero_h2 [OF h2 _ item])
qed

lemma init_result:
  assumes "init inet_pton hardware_version ip_arg port_arg = Inr self"
  shows "(hardware_version = py_str ''h1'' \<or> hardware_version = py_str ''h2'')
     \<and> hardware self = hardware_version
     \<and> ip self = ip_arg \<and> port self = port_arg
     \<and> socket_counter self = SOCKET_RETRY
     \<and> empty_data self = Inr (received_data self)"
proof -
  let ?self0 = "\<lparr>hardware = hardware_version, received_data = PNone,
                     ip = ip_arg, port = port_arg, socket_counter = SOCKET_RETRY\<rparr>"
  from assms obtain d where hv: "hardware_version = py_str ''h1'' \<or> hardware_version = py_str ''h2''"
    and emp: "empty_data ?self0 = Inr d"
    and self: "self = ?self0\<lparr>received_data := d\<rparr>"
    by (auto simp: init_def Let_def split: sum.splits if_splits)
  have "empty_data self = empty_data ?self0"
    using self by (simp add: empty_data_def)
  then show ?thesis
    using hv emp self by simp
qed

lemma reset_data_result:
  "empty_data self = Inr d \<Longrightarrow> reset_data self = (None, self\<lparr>received_data := d\<rparr>)"
  by (simp add: reset_data_def)

text \<open>
  The hardware version of a client is \<open>'h1'\<close> or \<open>'h2'\<close>: \<open>__init__\<close> admits no
  other (\<open>init_result\<close>), and no call of \<open>send\<close> assigns another.
\<close>

lemma receive_hardware:
  "hardware self = py_str ''h1'' \<or> hardware self = py_str ''h2'' \<Longrightarrow>
   hardware (snd (receive json_loads self data)) = py_str ''h1''
   \<or> hardware (snd (receive json_loads self data)) = py_str ''h2''"
  by (auto simp: receive_def Let_def split: option.splits sum.splits)

lemma reset_data_hardware:
  "hardware (snd (reset_data self)) = hardware self"
  by (simp add: reset_data_def split: sum.splits)

lemma send_hardware:
  assumes "hardware self = py_str ''h1'' \<or> hardware self = py_str ''h2''"
  shows "hardware (fst (snd (send json_loads self command n))) = py_str ''h1''
     \<or> hardware (fst (snd (send json_loads self command n))) = py_str ''h2''"
proof (cases "transport_failure n")
  case True
  then show ?thesis
    using assms by (simp add: send_failure)
next
  case False
  then obtain data where n: "n = Reply data"
    by (cases n) simp_all
  let ?self1 = "self\<lparr>socket_counter := SOCKET_RETRY\<rparr>"
  obtain r self2 where rcv: "receive json_loads ?self1 data = (r, self2)"
    by (cases "receive json_loads ?self1 data")
  have "hardware ?self1 = py_str ''h1'' \<or> hardware ?self1 = py_str ''h2''"
    using assms by simp
  then have h2: "hardware self2 = py_str ''h1'' \<or> hardware self2 = py_str ''h2''"
    using receive_hardware [of ?self1 json_loads data] rcv by simp
  show ?thesis
    using n rcv h2 reset_data_hardware [of self2]
    by (auto simp: send_def send_try_def send_except_def Let_def
        split: option.splits prod.splits)
qed

text \<open>
  C7. Whenever \<open>receive\<close> gets a frame that satisfies its contract and whose decrypted
  text \<open>json.loads\<close> turns into a payload with an object under \<open>emeter\<close>,
  \<open>get_realtime\<close>, it returns normally, stores the payload and sets the hardware version
  to \<open>'h2'\<close> exactly when that object has the key \<open>current_ma\<close>, and to \<open>'h1'\<close>
  otherwise, whatever the hardware version was before.
\<close>

theorem receive_detects_variant:
  assumes "decrypt data = Inr text"
    and "json_loads text = Some payload"
    and "getitem payload (py_str ''emeter'') = Inr em"
    and "getitem em (py_str ''get_realtime'') = Inr (PDict rt)"
  shows "receive json_loads self data =
           (None, self\<lparr>received_data := payload,
                       hardware := (if py_str ''current_ma'' \<in> fst ` set rt
                                    then py_str ''h2'' else py_str ''h1'')\<rparr>)
     \<and> (hardware (snd (receive json_loads self data)) = py_str ''h2''
          \<longleftrightarrow> py_str ''current_ma'' \<in> fst ` set rt)
     \<and> (hardware (snd (receive json_loads self data)) = py_str ''h1''
          \<longleftrightarrow> py_str ''current_ma'' \<notin> fst ` set rt)"
proof -
  have ok: "frame_ok data"
    using assms(1) by (auto simp: decrypt_def split: if_splits)
  have "receive json_loads self data =
           (None, self\<lparr>received_data := payload,
                       hardware := (if py_str ''current_ma'' \<in> fst ` set rt
                                    then py_str ''h2'' else py_str ''h1'')\<rparr>)"
    using ok assms by (simp add: receive_def Let_def)
  then show ?thesis
    using h1_neq_h2 by auto
qed

theorem receive_detects_variant_witness:
  "decrypt [0, 0, 0, 1, 171] = Inr [0]
   \<and> getitem (realtime [(py_str ''current'', PInt 1110)]) (py_str ''emeter'')
        = Inr (PDict [(py_str ''get_realtime'', PDict [(py_str ''current'', PInt 1110)])])
   \<and> hardware (example_client 100) = py_str ''h2''
   \<and> receive (\<lambda>text. Some (realtime [(py_str ''current'', PInt 1110)]))
        (example_client 100) [0, 0, 0, 1, 171]
       = (None, (example_client 100)
                  \<lparr>received_data := realtime [(py_str ''current'', PInt 1110)],
                   hardware := py_str ''h1''\<rparr>)"
proof -
  let ?rt = "[(py_str ''current'', PInt 1110)]"
  let ?em = "PDict [(py_str ''get_realtime'', PDict ?rt)]"
  have h1: "decrypt [0, 0, 0, 1, 171] = Inr [0]"
    by (simp add: decrypt_def frame_ok_def decode_latin1_def hs110_key_def Let_def)
  have h2: "(\<lambda>text. Some (realtime ?rt)) [0] = Some (realtime ?rt)"
    by simp
  have h3: "getitem (realtime ?rt) (py_str ''emeter'') = Inr ?em"
    by (simp add: dict_get_def)
  have h4: "getitem ?em (py_str ''get_realtime'') = Inr (PDict ?rt)"
    by (simp add: dict_get_def)
  have no: "py_str ''current_ma'' \<notin> fst ` set ?rt"
    by (simp add: py_str_def)
  have hw: "hardware (example_client 100) = py_str ''h2''"
    by (simp add: example_client_def)
  show ?thesis
    using h1 h3 hw no
      receive_detects_variant [OF h1 h2 h3 h4, of "example_client 100"]
    by simp
qed

text \<open>
  C10. For each of the four logical names \<open>current\<close>, \<open>voltage\<close>, \<open>power\<close> and
  \<open>total\<close>: a client that \<open>__init__\<close> returns holds the all-zero data under the field
  names of its hardware version, and \<open>get_data\<close> returns \<open>0.0\<close> on it; on a client whose
  hardware version is \<open>'h1'\<close> or \<open>'h2'\<close> (as every client has: \<open>__init__\<close> admits
  these only and \<open>receive\<close> assigns no other), \<open>reset_data\<close> returns normally and
  stores that all-zero data, on which \<open>get_data\<close> returns \<open>0.0\<close>; and so it does after
  a call of \<open>send\<close> that reset the data because the reply was not JSON.
\<close>

theorem zero_data_readable:
  assumes "item \<in> set [py_str ''current'', py_str ''voltage'', py_str ''power'', py_str ''total'']"
  shows "(init inet_pton hardware_version ip_arg port_arg = Inr client \<longrightarrow>
            hardware client = hardware_version
            \<and> empty_data client = Inr (received_data client)
            \<and> received_data client =
                 (if hardware client = py_str ''h1''
                  then realtime [(py_str ''current'', PInt 0),
                                 (py_str ''voltage'', PInt 0),
                                 (py_str ''power'', PInt 0),
                                 (py_str ''total'', PInt 0),
                                 (py_str ''err_code'', PInt 0)]
                  else realtime [(py_str ''current_ma'', PInt 0),
                                 (py_str ''voltage_mv'', PInt 0),
                                 (py_str ''power_mw'', PInt 0),
                                 (py_str ''total_wh'', PInt 0),
                                 (py_str ''err_code'', PInt 0)])
            \<and> get_data str_to_float client item = Inr (Finite 0))
     \<and> (hardware self = py_str ''h1'' \<or> hardware self = py_str ''h2'' \<longrightarrow>
            reset_data self =
              (None,
               self\<lparr>received_data :=
                 (if hardware self = py_str ''h1''
                  then realtime [(py_str ''current'', PInt 0),
                                 (py_str ''voltage'', PInt 0),
                                 (py_str ''power'', PInt 0),
                                 (py_str ''total'', PInt 0),
                                 (py_str ''err_code'', PInt 0)]
                  else realtime [(py_str ''current_ma'', PInt 0),
                                 (py_str ''voltage_mv'', PInt 0),
                                 (py_str ''power_mw'', PInt 0),
                                 (py_str ''total_wh'', PInt 0),
                                 (py_str ''err_code'', PInt 0)])\<rparr>)
            \<and> get_data str_to_float (snd (reset_data self)) item = Inr (Finite 0))
     \<and> ((hardware self = py_str ''h1'' \<or> hardware self = py_str ''h2'')
          \<and> decrypt data = Inr text \<and> json_loads text = None \<longrightarrow>
            get_data str_to_float (fst (snd (send json_loads self command (Reply data)))) item
              = Inr (Finite 0))"
proof (intro conjI impI)
  assume i: "init inet_pton hardware_version ip_arg port_arg = Inr client"
  note r = init_result [OF i]
  from r show "hardware client = hardware_version" by simp
  from r show e: "empty_data client = Inr (received_data client)" by simp
  from r have hw: "hardware client = py_str ''h1'' \<or> hardware client = py_str ''h2''"
    by auto
  from hw e assms show "get_data str_to_float client item = Inr (Finite 0)"
    by (rule get_data_empty)
  from hw show "received_data client =
                 (if hardware client = py_str ''h1''
                  then realtime [(py_str ''current'', PInt 0),
                                 (py_str ''voltage'', PInt 0),
                                 (py_str ''power'', PInt 0),
                                 (py_str ''total'', PInt 0),
                                 (py_str ''err_code'', PInt 0)]
                  else realtime [(py_str ''current_ma'', PInt 0),
                                 (py_str ''voltage_mv'', PInt 0),
                                 (py_str ''power_mw'', PInt 0),
                                 (py_str ''total_wh'', PInt 0),
                                 (py_str ''err_code'', PInt 0)])"
  proof
    assume a: "hardware client = py_str ''h1''"
    show ?thesis using e a by (simp add: empty_data_h1 [OF a])
  next
    assume a: "hardware client = py_str ''h2''"
    show ?thesis using e a h1_neq_h2 by (simp add: empty_data_h2 [OF a])
  qed
next
  assume hw: "hardware self = py_str ''h1'' \<or> hardware self = py_str ''h2''"
  let ?d = "if hardware self = py_str ''h1''
                  then realtime [(py_str ''current'', PInt 0),
                                 (py_str ''voltage'', PInt 0),
                                 (py_str ''power'', PInt 0),
                                 (py_str ''total'', PInt 0),
                                 (py_str ''err_code'', PInt 0)]
                  else realtime [(py_str ''current_ma'', PInt 0),
                                 (py_str ''voltage_mv'', PInt 0),
                                 (py_str ''power_mw'', PInt 0),
                                 (py_str ''total_wh'', PInt 0),
                                 (py_str ''err_code'', PInt 0)]"
  have e: "empty_data self = Inr ?d"
    using hw h1_neq_h2 by (auto simp: empty_data_h1 empty_data_h2)
  then show rd: "reset_data self = (None, self\<lparr>received_data := ?d\<rparr>)"
    by (rule reset_data_result)
  have "empty_data (self\<lparr>received_data := ?d\<rparr>) = Inr (received_data (self\<lparr>received_data := ?d\<rparr>))"
    using e by (simp add: empty_data_def)
  moreover have "hardware (self\<lparr>received_data := ?d\<rparr>) = py_str ''h1''
      \<or> hardware (self\<lparr>received_data := ?d\<rparr>) = py_str ''h2''"
    using hw by simp
  ultimately have "get_data str_to_float (self\<lparr>received_data := ?d\<rparr>) item = Inr (Finite 0)"
    using assms by (intro get_data_empty)
  then show "get_data str_to_float (snd (reset_data self)) item = Inr (Finite 0)"
    using rd by simp
next
  assume a: "(hardware self = py_str ''h1'' \<or> hardware self = py_str ''h2'')
          \<and> decrypt data = Inr text \<and> json_loads text = None"
  then have hw: "hardware self = py_str ''h1'' \<or> hardware self = py_str ''h2''"
    by simp
  obtain d where e: "empty_data self = Inr d"
    using hw by (auto simp: empty_data_h1 empty_data_h2)
  let ?self' = "self\<lparr>socket_counter := SOCKET_RETRY, received_data := d\<rparr>"
  have dec: "decrypt data = Inr text" and js: "json_loads text = None"
    using a by simp_all
  from dec js e
  have s: "send json_loads self command (Reply data) = (None, ?self', SockClosed)"
    by (rule send_parse_failure)
  have "empty_data ?self' = Inr (received_data ?self')"
    using e by (simp add: empty_data_def)
  moreover have "hardware ?self' = py_str ''h1'' \<or> hardware ?self' = py_str ''h2''"
    using hw by simp
  ultimately have "get_data str_to_float ?self' item = Inr (Finite 0)"
    using assms by (intro get_data_empty)
  then show "get_data str_to_float (fst (snd (send json_loads self command (Reply data)))) item
              = Inr (Finite 0)"
    using s by simp
qed

theorem zero_data_readable_witness:
  "py_str ''power'' \<in> set [py_str ''current'', py_str ''voltage'', py_str ''power'', py_str ''total'']
   \<and> init (\<lambda>text. True) (py_str ''h1'') (py_str ''192.168.1.53'') 9999 =
       Inr \<lparr>hardware = py_str ''h1'',
            received_data = realtime [(py_str ''current'', PInt 0),
                                      (py_str ''voltage'', PInt 0),
                                      (py_str ''power'', PInt 0),
                                      (py_str ''total'', PInt 0),
                                      (py_str ''err_code'', PInt 0)],
            ip = py_str ''192.168.1.53'', port = 9999, socket_counter = 100\<rparr>
   \<and> get_data (\<lambda>text. None)
        \<lparr>hardware = py_str ''h1'',
            received_data = realtime [(py_str ''current'', PInt 0),
                                      (py_str ''voltage'', PInt 0),
                                      (py_str ''power'', PInt 0),
                                      (py_str ''total'', PInt 0),
                                      (py_str ''err_code'', PInt 0)],
            ip = py_str ''192.168.1.53'', port = 9999, socket_counter = 100\<rparr>
        (py_str ''power'') = Inr (Finite 0)
   \<and> hardware (example_client 100) = py_str ''h2''
   \<and> get_data (\<lambda>text. None) (snd (reset_data (example_client 100))) (py_str ''power'')
       = Inr (Finite 0)
   \<and> decrypt [0, 0, 0, 1, 171] = Inr [0]
   \<and> get_data (\<lambda>text. None)
        (fst (snd (send no_json (example_client 100) [] (Reply [0, 0, 0, 1, 171]))))
        (py_str ''power'') = Inr (Finite 0)"
proof -
  let ?c = "\<lparr>hardware = py_str ''h1'',
            received_data = realtime [(py_str ''current'', PInt 0),
                                      (py_str ''voltage'', PInt 0),
                                      (py_str ''power'', PInt 0),
                                      (py_str ''total'', PInt 0),
                                      (py_str ''err_code'', PInt 0)],
            ip = py_str ''192.168.1.53'', port = 9999, socket_counter = 100\<rparr>"
  have item: "py_str ''power''
      \<in> set [py_str ''current'', py_str ''voltage'', py_str ''power'', py_str ''total'']"
    by simp
  have vip: "valid_ip (\<lambda>text. True) (py_str ''192.168.1.53'') = Inr (py_str ''192.168.1.53'')"
    by (simp add: valid_ip_def strip_def is_space_def py_str_def)
  have i: "init (\<lambda>text. True) (py_str ''h1'') (py_str ''192.168.1.53'') 9999 = Inr ?c"
    by (simp add: init_def vip empty_data_h1 SOCKET_RETRY_def) (simp add: py_str_def)
  have hw: "hardware (example_client 100) = py_str ''h2''"
    by (simp add: example_client_def)
  have dec: "decrypt [0, 0, 0, 1, 171] = Inr [0]"
    by (simp add: decrypt_def frame_ok_def decode_latin1_def hs110_key_def Let_def)
  note t = zero_data_readable [OF item, of "\<lambda>text. True" "py_str ''h1''" "py_str ''192.168.1.53''"
      9999 ?c "\<lambda>text. None" "example_client 100" "[0, 0, 0, 1, 171]" "[0]" no_json "[]"]
  have a: "get_data (\<lambda>text. None) ?c (py_str ''power'') = Inr (Finite 0)"
    using t i by blast
  have b: "get_data (\<lambda>text. None) (snd (reset_data (example_client 100))) (py_str ''power'')
       = Inr (Finite 0)"
    using t hw by blast
  have c: "get_data (\<lambda>text. None)
        (fst (snd (send no_json (example_client 100) [] (Reply [0, 0, 0, 1, 171]))))
        (py_str ''power'') = Inr (Finite 0)"
    using t hw dec no_json.simps [of "[0]"] by blast
  show ?thesis
    using item i a hw b dec c by blast
qed

end
